theory Spec2Isabelle
  imports Complex_Main "HOL-Library.Sublist"
begin

section \<open>The log page of the admin UI: \<open>src/ui/static/js/logs.js\<close>\<close>

text \<open>
  The script defines three classes that work on one page: \<open>LogsDropdown\<close> (menus),
  \<open>FetchLogs\<close> (reads the settings form, requests log records, renders them as rows
  and re-arms a timer in live mode) and \<open>FilterLogs\<close> (hides rendered rows by type and
  keyword). The development below embeds \<open>FetchLogs\<close> and \<open>FilterLogs\<close>: object fields
  are records, the rendered list is a list of rows, and everything a method does to the
  outside (\<open>fetch\<close>, \<open>setTimeout\<close>, \<open>console.log\<close>, an exception that escapes) is returned
  as a list of effects, in program order.
\<close>

subsection \<open>JavaScript values used by the script\<close>

text \<open>
  The numbers that the script stores and prints are timestamps, a status and the
  default delay. They are kept as integers, with \<open>NaN\<close> beside them (an empty date
  input reads as \<open>NaN\<close>).
\<close>

datatype jsnum = NaN | Fin int

datatype jsval = JStr string | JNum jsnum | JBool bool

text \<open>ToBoolean: the empty string, \<open>0\<close>, \<open>NaN\<close> and \<open>false\<close> are falsy.\<close>

fun truthy :: "jsval \<Rightarrow> bool" where
  "truthy (JStr s) = (s \<noteq> [])"
| "truthy (JNum NaN) = False"
| "truthy (JNum (Fin n)) = (n \<noteq> 0)"
| "truthy (JBool b) = b"

definition digit_char :: "nat \<Rightarrow> char" where
  "digit_char d = ''0123456789'' ! d"

fun digits_of :: "nat \<Rightarrow> string" where
  "digits_of n =
     (if n < 10 then [digit_char n] else digits_of (n div 10) @ [digit_char (n mod 10)])"

declare digits_of.simps [simp del]

text \<open>ToString, as a template literal \<open>`${v}`\<close> applies it.\<close>

fun NumberToString :: "jsnum \<Rightarrow> string" where
  "NumberToString NaN = ''NaN''"
| "NumberToString (Fin n) =
     (if n < 0 then CHR ''-'' # digits_of (nat (- n)) else digits_of (nat n))"

fun ToString :: "jsval \<Rightarrow> string" where
  "ToString (JStr s) = s"
| "ToString (JNum n) = NumberToString n"
| "ToString (JBool b) = (if b then ''true'' else ''false'')"

text \<open>
  A string is kept as the list of the bytes of its UTF-8 encoding. Equality,
  concatenation and the search for a contiguous run agree with the same operations on
  the characters of a well-formed string, and the white space beyond ASCII is a byte
  sequence of length two or three: the no-break space U+00A0 is the two bytes
  \<open>C2 A0\<close>.
\<close>

text \<open>
  The white space of the language (WhiteSpace and LineTerminator): tab, line feed,
  vertical tab, form feed, carriage return, space, U+00A0, U+1680, U+2000 to U+200A,
  U+2028, U+2029, U+202F, U+205F, U+3000 and U+FEFF.
\<close>

definition white_space :: "string list" where
  "white_space =
     [[CHR 0x09], [CHR 0x0A], [CHR 0x0B], [CHR 0x0C], [CHR 0x0D], [CHR 0x20],
      [CHR 0xC2, CHR 0xA0],
      [CHR 0xE1, CHR 0x9A, CHR 0x80],
      [CHR 0xE2, CHR 0x80, CHR 0x80], [CHR 0xE2, CHR 0x80, CHR 0x81],
      [CHR 0xE2, CHR 0x80, CHR 0x82], [CHR 0xE2, CHR 0x80, CHR 0x83],
      [CHR 0xE2, CHR 0x80, CHR 0x84], [CHR 0xE2, CHR 0x80, CHR 0x85],
      [CHR 0xE2, CHR 0x80, CHR 0x86], [CHR 0xE2, CHR 0x80, CHR 0x87],
      [CHR 0xE2, CHR 0x80, CHR 0x88], [CHR 0xE2, CHR 0x80, CHR 0x89],
      [CHR 0xE2, CHR 0x80, CHR 0x8A],
      [CHR 0xE2, CHR 0x80, CHR 0xA8], [CHR 0xE2, CHR 0x80, CHR 0xA9],
      [CHR 0xE2, CHR 0x80, CHR 0xAF],
      [CHR 0xE2, CHR 0x81, CHR 0x9F],
      [CHR 0xE3, CHR 0x80, CHR 0x80],
      [CHR 0xEF, CHR 0xBB, CHR 0xBF]]"

text \<open>Taking the sequences of \<open>ws\<close> off the start of a string, as long as one is there.\<close>

function strip_start :: "string list \<Rightarrow> string \<Rightarrow> string" where
  "strip_start ws s =
     (case find (\<lambda>w. w \<noteq> [] \<and> prefix w s) ws of
        None \<Rightarrow> s
      | Some w \<Rightarrow> strip_start ws (drop (length w) s))"
  by pat_completeness auto
termination
proof (relation "measure (\<lambda>(ws, s). length s)")
  show "wf (measure (\<lambda>(ws, s). length s))" by simp
next
  fix ws :: "string list" and s w :: string
  assume "find (\<lambda>w. w \<noteq> [] \<and> prefix w s) ws = Some w"
  then have "w \<noteq> []" and "prefix w s" by (auto simp add: find_Some_iff)
  then have "s \<noteq> []" by auto
  with \<open>w \<noteq> []\<close> show "((ws, drop (length w) s), (ws, s)) \<in> measure (\<lambda>(ws, s). length s)"
    by simp
qed

declare strip_start.simps [simp del]

text \<open>
  \<open>String.prototype.trim\<close>: the white space is taken off both ends. A byte sequence
  of the list at the end of a well-formed string is a character of its own, because
  its first byte cannot continue another character.
\<close>

definition trim :: "string \<Rightarrow> string" where
  "trim s = rev (strip_start (map rev white_space) (rev (strip_start white_space s)))"

subsection \<open>Numbers in arithmetic\<close>

text \<open>
  The one arithmetic expression of the script multiplies the text of the delay input
  by 1000. Its operands are Number values, binary64 floating point: \<open>NaN\<close>, the two
  infinities (\<open>Infinity True\<close> is the negative one) and the finite values, each kept as
  the rational number it stands for. The two zeros are one value here; they differ in
  nothing that the script can see.
\<close>

datatype number = NotANumber | Infinity bool | Finite rat

fun number_truthy :: "number \<Rightarrow> bool" where
  "number_truthy NotANumber = False"
| "number_truthy (Infinity neg) = True"
| "number_truthy (Finite q) = (q \<noteq> 0)"

text \<open>Rounding to the nearest integer, a tie to the even one.\<close>

definition round_even :: "rat \<Rightarrow> int" where
  "round_even x =
     (let f = \<lfloor>x\<rfloor>; r = x - of_int f
      in if r < 1 / 2 then f else if 1 / 2 < r then f + 1 else if even f then f else f + 1)"

text \<open>
  The binary exponent that fixes the spacing of the format around \<open>x\<close>: the greatest
  \<open>e\<close> from \<open>-1022\<close> to \<open>1023\<close> with \<open>2 powi e \<le> x\<close>, and \<open>-1022\<close> for the subnormal values.
\<close>

function binade_from :: "int \<Rightarrow> rat \<Rightarrow> int" where
  "binade_from e x =
     (if e \<le> - 1022 then - 1022 else if 2 powi e \<le> x then e else binade_from (e - 1) x)"
  by pat_completeness auto
termination
  by (relation "measure (\<lambda>(e, x). nat (e + 1022))") auto

declare binade_from.simps [simp del]

definition binade :: "rat \<Rightarrow> int" where
  "binade x = binade_from 1023 x"

text \<open>
  The Number value for a rational: the nearest multiple of the spacing (53 significant
  bits, spacing \<open>2 powi (- 1074)\<close> for the subnormal values), a tie to the even
  multiple, and an infinity when the result reaches \<open>2 powi 1024\<close>.
\<close>

definition round_double :: "rat \<Rightarrow> number" where
  "round_double x =
     (let ulp = 2 powi (binade \<bar>x\<bar> - 52);
          y = of_int (round_even (x / ulp)) * ulp
      in if 2 powi 1024 \<le> \<bar>y\<bar> then Infinity (x < 0) else Finite y)"

text \<open>The operator \<open>*\<close> on Number values.\<close>

fun number_times :: "number \<Rightarrow> number \<Rightarrow> number" where
  "number_times (Finite a) (Finite b) = round_double (a * b)"
| "number_times (Finite a) (Infinity t) =
     (if a = 0 then NotANumber else Infinity (t \<noteq> (a < 0)))"
| "number_times (Infinity s) (Finite b) =
     (if b = 0 then NotANumber else Infinity (s \<noteq> (b < 0)))"
| "number_times (Infinity s) (Infinity t) = Infinity (s \<noteq> t)"
| "number_times NotANumber _ = NotANumber"
| "number_times _ NotANumber = NotANumber"

subsection \<open>Texts as numbers\<close>

text \<open>
  StringToNumber, after the grammar StringNumericLiteral of the language. The value of
  a literal is exact (a rational, or an infinity), and is rounded once. (The language
  lets an implementation cut a decimal literal after its twentieth significant digit;
  the engines in use round the exact value, as is done here.)
\<close>

definition is_digit :: "char \<Rightarrow> bool" where
  "is_digit c = (c \<in> set ''0123456789'')"

definition digit_val :: "char \<Rightarrow> int" where
  "digit_val c = int (of_char c) - 48"

definition digits_value :: "string \<Rightarrow> int" where
  "digits_value ds = foldl (\<lambda>a c. 10 * a + digit_val c) 0 ds"

datatype literal = Not_numeric | Infinity_literal bool | Literal_value rat

text \<open>DecimalDigits, SignedInteger and ExponentPart (absent: exponent 0).\<close>

definition DecimalDigits :: "string \<Rightarrow> int option" where
  "DecimalDigits ds = (if ds \<noteq> [] \<and> list_all is_digit ds then Some (digits_value ds) else None)"

definition SignedInteger :: "string \<Rightarrow> int option" where
  "SignedInteger s =
     (case s of
        [] \<Rightarrow> None
      | c # r \<Rightarrow>
          if c = CHR ''+'' then DecimalDigits r
          else if c = CHR ''-'' then map_option uminus (DecimalDigits r)
          else DecimalDigits s)"

definition ExponentPart :: "string \<Rightarrow> int option" where
  "ExponentPart s =
     (case s of
        [] \<Rightarrow> Some 0
      | c # r \<Rightarrow> if c = CHR ''e'' \<or> c = CHR ''E'' then SignedInteger r else None)"

text \<open>
  StrUnsignedDecimalLiteral: \<open>Infinity\<close>, or digits with an optional point, at least
  one digit before or after it, and an optional exponent.
\<close>

definition StrUnsignedDecimalLiteral :: "string \<Rightarrow> literal" where
  "StrUnsignedDecimalLiteral s =
     (if s = ''Infinity'' then Infinity_literal False
      else
        let ip = takeWhile is_digit s;
            r1 = dropWhile is_digit s;
            point = (r1 \<noteq> [] \<and> hd r1 = CHR ''.'');
            fp = (if point then takeWhile is_digit (tl r1) else []);
            r2 = (if point then dropWhile is_digit (tl r1) else r1)
        in if ip = [] \<and> fp = [] then Not_numeric
           else case ExponentPart r2 of
                  None \<Rightarrow> Not_numeric
                | Some e \<Rightarrow>
                    Literal_value (of_int (digits_value (ip @ fp)) * 10 powi (e - int (length fp))))"

fun literal_negate :: "literal \<Rightarrow> literal" where
  "literal_negate Not_numeric = Not_numeric"
| "literal_negate (Infinity_literal neg) = Infinity_literal (\<not> neg)"
| "literal_negate (Literal_value q) = Literal_value (- q)"

definition StrDecimalLiteral :: "string \<Rightarrow> literal" where
  "StrDecimalLiteral s =
     (case s of
        [] \<Rightarrow> Not_numeric
      | c # r \<Rightarrow>
          if c = CHR ''+'' then StrUnsignedDecimalLiteral r
          else if c = CHR ''-'' then literal_negate (StrUnsignedDecimalLiteral r)
          else StrUnsignedDecimalLiteral s)"

text \<open>
  NonDecimalIntegerLiteral: \<open>0x\<close>, \<open>0o\<close> or \<open>0b\<close> (the letter in either case) and at
  least one digit of the radix; it takes no sign.
\<close>

definition radix_digit :: "char \<Rightarrow> int option" where
  "radix_digit c = map_of (zip ''0123456789abcdef'' [0..15] @ zip ''ABCDEF'' [10..15]) c"

definition radix_value :: "int \<Rightarrow> string \<Rightarrow> int option" where
  "radix_value b ds =
     (if ds \<noteq> [] \<and> list_all (\<lambda>c. case radix_digit c of None \<Rightarrow> False | Some v \<Rightarrow> v < b) ds
      then Some (foldl (\<lambda>a c. b * a + (case radix_digit c of None \<Rightarrow> 0 | Some v \<Rightarrow> v)) 0 ds)
      else None)"

definition NonDecimalIntegerLiteral :: "string \<Rightarrow> int option" where
  "NonDecimalIntegerLiteral s =
     (case s of
        c0 # c1 # ds \<Rightarrow>
          if c0 \<noteq> CHR ''0'' then None
          else if c1 = CHR ''x'' \<or> c1 = CHR ''X'' then radix_value 16 ds
          else if c1 = CHR ''o'' \<or> c1 = CHR ''O'' then radix_value 8 ds
          else if c1 = CHR ''b'' \<or> c1 = CHR ''B'' then radix_value 2 ds
          else None
      | _ \<Rightarrow> None)"

definition StrNumericLiteral :: "string \<Rightarrow> literal" where
  "StrNumericLiteral s =
     (case NonDecimalIntegerLiteral s of
        Some n \<Rightarrow> Literal_value (of_int n)
      | None \<Rightarrow> StrDecimalLiteral s)"

text \<open>
  StringToNumber: white space at both ends is dropped, the empty text is \<open>0\<close>, a text
  that is no literal is \<open>NaN\<close>.
\<close>

definition StringToNumber :: "string \<Rightarrow> number" where
  "StringToNumber s =
     (let t = trim s
      in if t = [] then Finite 0
         else case StrNumericLiteral t of
                Not_numeric \<Rightarrow> NotANumber
              | Infinity_literal neg \<Rightarrow> Infinity neg
              | Literal_value q \<Rightarrow> round_double q)"

text \<open>ToNumber, and the operator \<open>*\<close> on values: both operands go through ToNumber.\<close>

fun ToNumber :: "jsval \<Rightarrow> number" where
  "ToNumber (JStr s) = StringToNumber s"
| "ToNumber (JNum NaN) = NotANumber"
| "ToNumber (JNum (Fin n)) = round_double (of_int n)"
| "ToNumber (JBool b) = Finite (if b then 1 else 0)"

definition js_times :: "jsval \<Rightarrow> jsval \<Rightarrow> number" where
  "js_times a b = number_times (ToNumber a) (ToNumber b)"

text \<open>\<open>String.prototype.includes\<close>: a case-sensitive search for a contiguous run.\<close>

fun str_includes :: "string \<Rightarrow> string \<Rightarrow> bool" where
  "str_includes [] k = (k = [])"
| "str_includes (c # cs) k = (prefix k (c # cs) \<or> str_includes cs k)"

text \<open>Exceptions that the script can raise.\<close>

datatype js_error = TypeError | SyntaxError

subsection \<open>The rendered list\<close>

text \<open>
  \<open>showLogs\<close> renders a record as an \<open>li\<close> holding two paragraphs, marked \<open>logs-type\<close>
  and \<open>logs-content\<close>. A row keeps the class list of the \<open>li\<close> and the text of the two
  paragraphs. The children of the list element are the rows that \<open>showLogs\<close> appended.
\<close>

record row =
  classList :: "string list"
  logs_type :: string
  logs_content :: string

text \<open>\<open>classList\<close> is an ordered set of tokens.\<close>

definition classList_add :: "string \<Rightarrow> row \<Rightarrow> row" where
  "classList_add tok el =
     (if tok \<in> set (classList el) then el else el\<lparr>classList := classList el @ [tok]\<rparr>)"

definition classList_remove :: "string \<Rightarrow> row \<Rightarrow> row" where
  "classList_remove tok el = el\<lparr>classList := removeAll tok (classList el)\<rparr>"

definition is_hidden :: "row \<Rightarrow> bool" where
  "is_hidden el = (''hidden'' \<in> set (classList el))"

subsection \<open>FilterLogs\<close>

record filterlogs =
  lastType :: string

text \<open>The constructor (the handlers it installs are \<open>type_click\<close> and \<open>keyword_input\<close>).\<close>

definition FilterLogs_new :: filterlogs where
  "FilterLogs_new = \<lparr>lastType = ''''\<rparr>"

text \<open>The body of the loop of \<open>setFilterType\<close>, for one row.\<close>

definition setFilterType_row :: "filterlogs \<Rightarrow> row \<Rightarrow> row" where
  "setFilterType_row this el =
     (let el1 = (if lastType this \<noteq> ''misc'' \<and> logs_type el \<noteq> lastType this
                 then classList_add ''hidden'' el else el)
      in if lastType this = ''misc'' \<and> logs_type el1 \<noteq> ''info''
            \<and> logs_type el1 \<noteq> ''message''
         then classList_add ''hidden'' el1 else el1)"

definition setFilterType :: "filterlogs \<Rightarrow> row list \<Rightarrow> row list" where
  "setFilterType this logs =
     (if lastType this = ''all'' then logs else map (setFilterType_row this) logs)"

text \<open>\<open>setFilterKeyword\<close>; the keyword is the value of \<open>input#keyword\<close>.\<close>

definition setFilterKeyword_row :: "string \<Rightarrow> row \<Rightarrow> row" where
  "setFilterKeyword_row keyword el =
     (if \<not> str_includes (logs_content el) keyword then classList_add ''hidden'' el else el)"

definition setFilterKeyword :: "string \<Rightarrow> row list \<Rightarrow> row list" where
  "setFilterKeyword keyword logs =
     (if \<not> truthy (JStr keyword) then logs else map (setFilterKeyword_row keyword) logs)"

text \<open>
  \<open>filter\<close>. The class has no method \<open>setFilterDate\<close>, so the last statement of a run
  over a non-empty list raises a TypeError, after the rows have been updated.
\<close>

definition filter_logs :: "filterlogs \<Rightarrow> string \<Rightarrow> row list \<Rightarrow> row list \<times> js_error option" where
  "filter_logs this keyword logs =
     (if length logs = 0 then (logs, None)
      else (setFilterKeyword keyword
              (setFilterType this (map (classList_remove ''hidden'') logs)),
            Some TypeError))"

text \<open>
  The two handlers of \<open>initHandler\<close>: a click on a button of the types menu (its
  \<open>value\<close> attribute is the argument) stores the type and runs the filter inside
  \<open>try\<close>/\<open>catch\<close>; an input event on the keyword field runs the filter, and the
  exception escapes.
\<close>

definition type_click :: "string \<Rightarrow> string \<Rightarrow> filterlogs \<times> row list \<Rightarrow> filterlogs \<times> row list" where
  "type_click btnValue keyword s =
     (let this = (fst s)\<lparr>lastType := btnValue\<rparr>
      in (this, fst (filter_logs this keyword (snd s))))"

definition keyword_input :: "string \<Rightarrow> filterlogs \<times> row list \<Rightarrow> (filterlogs \<times> row list) \<times> js_error option" where
  "keyword_input keyword s =
     (let r = filter_logs (fst s) keyword (snd s) in ((fst s, fst r), snd r))"

subsection \<open>FetchLogs\<close>

text \<open>
  What \<open>FetchLogs\<close> reads from the page when a handler runs: the address of the page,
  the clock, the text of the instance selector and the controls of the settings form.
\<close>

record page =
  location_href :: string
  Date_now :: int
  instance_textContent :: string
  fromDateInp_valueAsNumber :: jsnum
  toDateInp_valueAsNumber :: jsnum
  updateDelayInp_value :: string
  liveUpdateInp_checked :: bool

text \<open>
  The fields of the object. \<open>toDate\<close> holds the empty string, a number or \<open>false\<close>;
  \<open>updateDelay\<close> holds a number or the text of the delay input; \<open>formDate\<close> is a
  property that \<open>getSettings\<close> creates (\<open>None\<close> before).
\<close>

record fetchlogs =
  instanceName :: string
  fromDate :: jsval
  toDate :: jsval
  formDate :: "jsval option"
  isLiveUpdate :: bool
  updateDelay :: jsval
  lastUpdate :: int

text \<open>
  \<open>Math.round(Date.now() / 1000 - 86400)\<close> on a clock of whole milliseconds:
  \<open>Math.round\<close> rounds to the nearest integer, a half upwards.
\<close>

definition day_ago :: "int \<Rightarrow> int" where
  "day_ago now = (now + 500) div 1000 - 86400"

definition FetchLogs_new :: "page \<Rightarrow> fetchlogs" where
  "FetchLogs_new pg =
     \<lparr>instanceName = [], fromDate = JStr [], toDate = JStr [], formDate = None,
      isLiveUpdate = False, updateDelay = JNum (Fin 2000),
      lastUpdate = day_ago (Date_now pg)\<rparr>"

definition getSettings :: "page \<Rightarrow> fetchlogs \<Rightarrow> bool \<times> fetchlogs" where
  "getSettings pg this0 =
     (let this = this0\<lparr>instanceName := instance_textContent pg\<rparr>
      in if \<not> truthy (JStr (instanceName this)) \<or> trim (instanceName this) = ''none''
         then (False, this)
         else (True, this
           \<lparr>formDate := Some (if truthy (JNum (fromDateInp_valueAsNumber pg))
                              then JNum (fromDateInp_valueAsNumber pg)
                              else JNum (Fin (day_ago (Date_now pg)))),
            toDate := (if truthy (JNum (toDateInp_valueAsNumber pg))
                       then JNum (toDateInp_valueAsNumber pg)
                       else JBool False),
            updateDelay := (if number_truthy (js_times (JStr (updateDelayInp_value pg)) (JNum (Fin 1000)))
                            then JStr (updateDelayInp_value pg)
                            else JNum (Fin 2000)),
            isLiveUpdate := liveUpdateInp_checked pg\<rparr>))"

text \<open>Callbacks handed to \<open>setTimeout\<close>, and the effects of a handler.\<close>

datatype timer_callback = GoBottomList | GetLogsSinceLastUpdate | DeferredSubmit

datatype effect =
    Fetch string
  | SetTimeout timer_callback jsval
  | ConsoleLog string
  | ScrollToBottom
  | Uncaught js_error

text \<open>
  The argument of \<open>fetch\<close> in \<open>getLogsFromToDate\<close>. The operator \<open>+\<close> binds tighter than
  \<open>? :\<close>, so the condition of the conditional is the whole concatenation of the
  template literal (address, instance name, \<open>from_date\<close>) and \<open>this.toDate\<close>.
\<close>

definition getLogsFromToDate_url :: "page \<Rightarrow> fetchlogs \<Rightarrow> string" where
  "getLogsFromToDate_url pg this =
     (if truthy (JStr ((location_href pg @ ''/'' @ instanceName this @ ''?from_date=''
                         @ ToString (fromDate this)) @ ToString (toDate this)))
      then ''?to_date='' @ ToString (toDate this)
      else [])"

text \<open>The argument of \<open>fetch\<close> in \<open>getLogsSinceLastUpdate\<close>.\<close>

definition getLogsSinceLastUpdate_url :: "page \<Rightarrow> fetchlogs \<Rightarrow> string" where
  "getLogsSinceLastUpdate_url pg this =
     (location_href pg @ ''/'' @ instanceName this)
     @ (if truthy (JNum (Fin (lastUpdate this)))
        then ''?last_update='' @ ToString (JNum (Fin (lastUpdate this)))
        else [])"

text \<open>
  A response: its status and its body as \<open>response.json()\<close> reads it (\<open>None\<close> when the
  body is not JSON). The body is \<open>{ last_update: number, logs: [{ type, content }] }\<close>,
  or an object that has the number \<open>last_update\<close> and no \<open>logs\<close>.
\<close>

record log =
  log_type :: string
  log_content :: string

record res =
  last_update :: int
  logs :: "log list"

datatype body = With_logs res | Without_logs int

record response =
  status :: int
  json :: "body option"

definition render :: "log \<Rightarrow> row" where
  "render lg =
     \<lparr>classList = [''grid'', ''grid-cols-12'', ''border-b'', ''border-gray-300'', ''py-2''],
      logs_type = log_type lg, logs_content = log_content lg\<rparr>"

definition showLogs :: "res \<Rightarrow> fetchlogs \<times> row list \<Rightarrow> (fetchlogs \<times> row list) \<times> effect list" where
  "showLogs r s =
     (let this = (fst s)\<lparr>lastUpdate := last_update r\<rparr>;
          list = snd s @ map render (logs r)
      in ((this, list),
          SetTimeout GoBottomList (JNum (Fin 100))
          # (if isLiveUpdate this \<and> \<not> truthy (toDate this)
             then [SetTimeout GetLogsSinceLastUpdate (updateDelay this)]
             else [])))"

text \<open>
  What \<open>getLogsFromToDate\<close> and \<open>getLogsSinceLastUpdate\<close> do once \<open>fetch\<close> has answered
  (the two methods have the same statements after \<open>await fetch\<close>). A request that gets
  no response rejects the promise, and the method does nothing more. On a body with no
  \<open>logs\<close>, \<open>showLogs\<close> runs its first statement, which stores \<open>last_update\<close>, and
  \<open>res.logs.forEach\<close> raises a TypeError: nothing is rendered and no timer is set.
\<close>

definition on_response :: "response \<Rightarrow> fetchlogs \<times> row list \<Rightarrow> (fetchlogs \<times> row list) \<times> effect list" where
  "on_response resp s =
     (if status resp = 200 then
        (case json resp of
           None \<Rightarrow> (s, [Uncaught SyntaxError])
         | Some (Without_logs n) \<Rightarrow> (((fst s)\<lparr>lastUpdate := n\<rparr>, snd s), [Uncaught TypeError])
         | Some (With_logs r) \<Rightarrow> showLogs r s)
      else (s, [ConsoleLog (''Error: '' @ ToString (JNum (Fin (status resp))))]))"

text \<open>
  The click handler of \<open>button#submit-settings\<close> installed by \<open>init\<close>.
  \<open>read_and_fetch\<close> is the pair of statements that both branches share.
\<close>

definition read_and_fetch :: "page \<Rightarrow> fetchlogs \<times> row list \<Rightarrow> (fetchlogs \<times> row list) \<times> effect list" where
  "read_and_fetch pg s =
     (let isSettings = getSettings pg (fst s)
      in ((snd isSettings, snd s),
          if fst isSettings then [Fetch (getLogsFromToDate_url pg (snd isSettings))] else []))"

definition submit :: "page \<Rightarrow> fetchlogs \<times> row list \<Rightarrow> (fetchlogs \<times> row list) \<times> effect list" where
  "submit pg s =
     (let this = fst s
      in if isLiveUpdate this \<and> \<not> truthy (toDate this)
         then ((this, []), [SetTimeout DeferredSubmit (updateDelay this)])
         else read_and_fetch pg (this, []))"

text \<open>A timer fires: the page is the page at that moment.\<close>

fun run_timer :: "page \<Rightarrow> timer_callback \<Rightarrow> fetchlogs \<times> row list \<Rightarrow> (fetchlogs \<times> row list) \<times> effect list" where
  "run_timer pg GoBottomList s = (s, [ScrollToBottom])"
| "run_timer pg GetLogsSinceLastUpdate s = (s, [Fetch (getLogsSinceLastUpdate_url pg (fst s))])"
| "run_timer pg DeferredSubmit s = read_and_fetch pg s"

text \<open>Reading a list of effects.\<close>

fun fetches :: "effect list \<Rightarrow> string list" where
  "fetches [] = []"
| "fetches (Fetch u # es) = u # fetches es"
| "fetches (_ # es) = fetches es"

fun timers :: "effect list \<Rightarrow> (timer_callback \<times> jsval) list" where
  "timers [] = []"
| "timers (SetTimeout cb d # es) = (cb, d) # timers es"
| "timers (_ # es) = timers es"

text \<open>The timers that lead to a request when they fire.\<close>

definition fetch_timers :: "effect list \<Rightarrow> (timer_callback \<times> jsval) list" where
  "fetch_timers es = filter (\<lambda>t. fst t \<noteq> GoBottomList) (timers es)"

section \<open>Properties of the filter\<close>

subsection \<open>Rows, one pass at a time\<close>

text \<open>\<open>includes\<close> finds exactly the contiguous runs (\<open>sublist\<close> of the library).\<close>

lemma str_includes_iff: "str_includes s k \<longleftrightarrow> sublist k s"
  by (induction s) (auto simp: sublist_Cons_right)

lemma is_hidden_add [simp]: "is_hidden (classList_add ''hidden'' el)"
  by (simp add: is_hidden_def classList_add_def)

lemma is_hidden_remove [simp]: "\<not> is_hidden (classList_remove ''hidden'' el)"
  by (simp add: is_hidden_def classList_remove_def)

lemma fields_add [simp]:
  "logs_type (classList_add t el) = logs_type el"
  "logs_content (classList_add t el) = logs_content el"
  by (simp_all add: classList_add_def)

lemma fields_remove [simp]:
  "logs_type (classList_remove t el) = logs_type el"
  "logs_content (classList_remove t el) = logs_content el"
  by (simp_all add: classList_remove_def)

lemma setFilterType_row_fields [simp]:
  "logs_type (setFilterType_row this el) = logs_type el"
  "logs_content (setFilterType_row this el) = logs_content el"
  by (simp_all add: setFilterType_row_def Let_def)

lemma setFilterType_row_hidden:
  "is_hidden (setFilterType_row this el) \<longleftrightarrow>
     is_hidden el \<or>
     (if lastType this = ''misc'' then logs_type el \<noteq> ''info'' \<and> logs_type el \<noteq> ''message''
      else logs_type el \<noteq> lastType this)"
  by (simp add: setFilterType_row_def Let_def)

lemma setFilterKeyword_row_fields [simp]:
  "logs_type (setFilterKeyword_row k el) = logs_type el"
  "logs_content (setFilterKeyword_row k el) = logs_content el"
  by (simp_all add: setFilterKeyword_row_def)

lemma setFilterKeyword_row_hidden:
  "is_hidden (setFilterKeyword_row k el) \<longleftrightarrow> is_hidden el \<or> \<not> sublist k (logs_content el)"
  by (simp add: setFilterKeyword_row_def str_includes_iff)

lemma setFilterType_fields:
  "map logs_type (setFilterType this rows) = map logs_type rows"
  "map logs_content (setFilterType this rows) = map logs_content rows"
  by (simp_all add: setFilterType_def comp_def)

lemma setFilterKeyword_fields:
  "map logs_type (setFilterKeyword k rows) = map logs_type rows"
  "map logs_content (setFilterKeyword k rows) = map logs_content rows"
  by (simp_all add: setFilterKeyword_def comp_def)

lemma setFilterType_hidden:
  "map is_hidden (setFilterType this rows) =
     map (\<lambda>el. is_hidden el \<or>
            (if lastType this = ''all'' then False
             else if lastType this = ''misc''
               then logs_type el \<noteq> ''info'' \<and> logs_type el \<noteq> ''message''
               else logs_type el \<noteq> lastType this)) rows"
  by (simp add: setFilterType_def comp_def setFilterType_row_hidden)

lemma setFilterKeyword_hidden:
  "map is_hidden (setFilterKeyword k rows) =
     map (\<lambda>el. is_hidden el \<or> (k \<noteq> [] \<and> \<not> sublist k (logs_content el))) rows"
  by (simp add: setFilterKeyword_def comp_def setFilterKeyword_row_hidden)

lemma filter_logs_fields:
  "map logs_type (fst (filter_logs this k rows)) = map logs_type rows"
  "map logs_content (fst (filter_logs this k rows)) = map logs_content rows"
  by (simp_all add: filter_logs_def setFilterKeyword_fields setFilterType_fields comp_def)

lemma filter_logs_hidden:
  "map is_hidden (fst (filter_logs this k rows)) =
     map (\<lambda>el. (if lastType this = ''all'' then False
             else if lastType this = ''misc''
               then logs_type el \<noteq> ''info'' \<and> logs_type el \<noteq> ''message''
               else logs_type el \<noteq> lastType this)
             \<or> (k \<noteq> [] \<and> \<not> sublist k (logs_content el))) rows"
  by (auto simp add: filter_logs_def setFilterType_def setFilterKeyword_def comp_def
      setFilterType_row_hidden setFilterKeyword_row_hidden)

subsection \<open>The type predicate\<close>

text \<open>
  Claim C6. The type pass of \<open>filter()\<close>, row by row: with the selected type \<open>all\<close> it
  hides nothing; with \<open>misc\<close> it keeps exactly the rows whose type is \<open>info\<close> or
  \<open>message\<close>; with any other selected type it keeps exactly the rows whose type is the
  selected type. A row that the pass does not keep gets the class \<open>hidden\<close>, the texts of
  the rows are left alone, and a run of \<open>filter()\<close> with an empty keyword hides exactly
  the rows that the type predicate does not keep.
\<close>

theorem setFilterType_type_predicate:
  "map is_hidden (setFilterType this rows) =
     map (\<lambda>el. is_hidden el \<or>
            \<not> (if lastType this = ''all'' then True
               else if lastType this = ''misc''
                 then logs_type el = ''info'' \<or> logs_type el = ''message''
                 else logs_type el = lastType this)) rows
   \<and> map is_hidden (fst (filter_logs this [] rows)) =
     map (\<lambda>el. \<not> (if lastType this = ''all'' then True
               else if lastType this = ''misc''
                 then logs_type el = ''info'' \<or> logs_type el = ''message''
                 else logs_type el = lastType this)) rows
   \<and> map logs_type (setFilterType this rows) = map logs_type rows
   \<and> map logs_content (setFilterType this rows) = map logs_content rows"
  by (simp add: setFilterType_hidden filter_logs_hidden setFilterType_fields)

text \<open>The theorem at the types \<open>misc\<close> and \<open>error\<close>.\<close>

theorem setFilterType_type_predicate_witness:
  "map is_hidden (setFilterType \<lparr>lastType = ''misc''\<rparr>
      (map render [\<lparr>log_type = ''error'', log_content = ''a''\<rparr>,
                   \<lparr>log_type = ''info'', log_content = ''b''\<rparr>,
                   \<lparr>log_type = ''message'', log_content = ''c''\<rparr>,
                   \<lparr>log_type = ''misc'', log_content = ''d''\<rparr>])) = [True, False, False, True]
   \<and> map is_hidden (fst (filter_logs \<lparr>lastType = ''error''\<rparr> []
      (map render [\<lparr>log_type = ''error'', log_content = ''x''\<rparr>,
                   \<lparr>log_type = ''info'', log_content = ''y''\<rparr>]))) = [False, True]"
  using setFilterType_type_predicate [of "\<lparr>lastType = ''misc''\<rparr>"
      "map render [\<lparr>log_type = ''error'', log_content = ''a''\<rparr>,
                   \<lparr>log_type = ''info'', log_content = ''b''\<rparr>,
                   \<lparr>log_type = ''message'', log_content = ''c''\<rparr>,
                   \<lparr>log_type = ''misc'', log_content = ''d''\<rparr>]"]
    setFilterType_type_predicate [of "\<lparr>lastType = ''error''\<rparr>"
      "map render [\<lparr>log_type = ''error'', log_content = ''x''\<rparr>,
                   \<lparr>log_type = ''info'', log_content = ''y''\<rparr>]"]
  by (simp add: render_def is_hidden_def)

text \<open>
  Claim C9. A new \<open>FilterLogs\<close> has the empty string as its type. When the first thing
  the user does is to type a keyword, \<open>filter()\<close> runs with that type, and every row
  whose type text is not empty is hidden, whatever the keyword.
\<close>

theorem initial_lastType_hides_typed_rows:
  "lastType FilterLogs_new = []
   \<and> map is_hidden (snd (fst (keyword_input keyword (FilterLogs_new, rows)))) =
       map (\<lambda>el. logs_type el \<noteq> [] \<or> (keyword \<noteq> [] \<and> \<not> sublist keyword (logs_content el))) rows
   \<and> (\<forall>i < length rows. logs_type (rows ! i) \<noteq> [] \<longrightarrow>
         is_hidden (snd (fst (keyword_input keyword (FilterLogs_new, rows))) ! i))"
proof -
  have h: "map is_hidden (snd (fst (keyword_input keyword (FilterLogs_new, rows)))) =
       map (\<lambda>el. logs_type el \<noteq> [] \<or> (keyword \<noteq> [] \<and> \<not> sublist keyword (logs_content el))) rows"
    by (simp add: keyword_input_def Let_def filter_logs_hidden FilterLogs_new_def)
  have "is_hidden (snd (fst (keyword_input keyword (FilterLogs_new, rows))) ! i)"
    if "i < length rows" "logs_type (rows ! i) \<noteq> []" for i
  proof -
    have "map is_hidden (snd (fst (keyword_input keyword (FilterLogs_new, rows)))) ! i = True"
      unfolding h using that by simp
    moreover have "i < length (snd (fst (keyword_input keyword (FilterLogs_new, rows))))"
      using that(1) arg_cong [OF h, of length] by simp
    ultimately show ?thesis by simp
  qed
  then show ?thesis using h by (simp add: FilterLogs_new_def)
qed

text \<open>The theorem on two rows that both contain the keyword.\<close>

theorem initial_lastType_hides_typed_rows_witness:
  "map is_hidden (snd (fst (keyword_input ''a'' (FilterLogs_new,
      map render [\<lparr>log_type = ''error'', log_content = ''abc''\<rparr>,
                  \<lparr>log_type = '''', log_content = ''abc''\<rparr>])))) = [True, False]"
  using initial_lastType_hides_typed_rows [of "''a''"
      "map render [\<lparr>log_type = ''error'', log_content = ''abc''\<rparr>,
                  \<lparr>log_type = '''', log_content = ''abc''\<rparr>]"]
  by (simp add: render_def sublist_code(3))

subsection \<open>The keyword predicate\<close>

text \<open>
  Claim C7. The keyword pass hides exactly the rows whose content does not contain the
  keyword as a contiguous, case-sensitive run, and an empty keyword switches the pass
  off. So when \<open>filter()\<close> runs again after the keyword has been cleared, the rows that
  are hidden are those that the type pass hides on its own: every row that only the
  keyword had hidden is visible again.
\<close>

theorem keyword_predicate:
  "map is_hidden (setFilterKeyword keyword rows) =
     map (\<lambda>el. is_hidden el \<or> (keyword \<noteq> [] \<and> \<not> sublist keyword (logs_content el))) rows
   \<and> setFilterKeyword [] rows = rows
   \<and> map is_hidden (fst (filter_logs this [] (fst (filter_logs this keyword rows)))) =
     map is_hidden (setFilterType this (map (classList_remove ''hidden'') rows))"
proof -
  let ?P = "\<lambda>ty. if lastType this = ''all'' then False
             else if lastType this = ''misc'' then ty \<noteq> ''info'' \<and> ty \<noteq> ''message''
             else ty \<noteq> lastType this"
  have ty: "map is_hidden (setFilterType this (map (classList_remove ''hidden'') rows)) =
      map (\<lambda>el. ?P (logs_type el)) rows"
    by (simp add: setFilterType_hidden comp_def)
  have "map is_hidden (fst (filter_logs this [] (fst (filter_logs this keyword rows)))) =
      map ?P (map logs_type (fst (filter_logs this keyword rows)))"
    by (simp add: filter_logs_hidden comp_def)
  also have "\<dots> = map (\<lambda>el. ?P (logs_type el)) rows"
    by (simp add: filter_logs_fields comp_def)
  finally have rerun:
    "map is_hidden (fst (filter_logs this [] (fst (filter_logs this keyword rows)))) =
      map is_hidden (setFilterType this (map (classList_remove ''hidden'') rows))"
    using ty by simp
  have off: "setFilterKeyword [] rows = rows"
    by (simp add: setFilterKeyword_def)
  show ?thesis
    using rerun off setFilterKeyword_hidden [of keyword rows] by blast
qed

text \<open>The theorem on three rows, two of them of the selected type.\<close>

theorem keyword_predicate_witness:
  "map is_hidden (setFilterKeyword ''Err''
      (map render [\<lparr>log_type = ''error'', log_content = ''Error 1''\<rparr>,
                   \<lparr>log_type = ''error'', log_content = ''error 2''\<rparr>,
                   \<lparr>log_type = ''info'', log_content = ''Error 3''\<rparr>])) = [False, True, False]
   \<and> map is_hidden (fst (filter_logs \<lparr>lastType = ''error''\<rparr> []
       (fst (filter_logs \<lparr>lastType = ''error''\<rparr> ''Err''
      (map render [\<lparr>log_type = ''error'', log_content = ''Error 1''\<rparr>,
                   \<lparr>log_type = ''error'', log_content = ''error 2''\<rparr>,
                   \<lparr>log_type = ''info'', log_content = ''Error 3''\<rparr>]))))) = [False, False, True]"
  using keyword_predicate [of "''Err''"
      "map render [\<lparr>log_type = ''error'', log_content = ''Error 1''\<rparr>,
                   \<lparr>log_type = ''error'', log_content = ''error 2''\<rparr>,
                   \<lparr>log_type = ''info'', log_content = ''Error 3''\<rparr>]" "\<lparr>lastType = ''error''\<rparr>"]
  by (simp add: render_def sublist_code(3) setFilterType_hidden is_hidden_def classList_remove_def)

text \<open>
  Claim C2, as amended. With the selected type \<open>all\<close> the type pass hides nothing, and
  \<open>filter()\<close> leaves a row visible exactly when the keyword is empty or the content of
  the row contains it.
\<close>

theorem filter_all_keeps_keyword_matches:
  "map is_hidden (fst (filter_logs (this\<lparr>lastType := ''all''\<rparr>) keyword rows)) =
     map (\<lambda>el. keyword \<noteq> [] \<and> \<not> sublist keyword (logs_content el)) rows"
  by (simp add: filter_logs_hidden)

text \<open>The theorem on two rows, one of which contains the keyword.\<close>

theorem filter_all_keeps_keyword_matches_witness:
  "map is_hidden (fst (filter_logs \<lparr>lastType = ''all''\<rparr> ''rr''
      (map render [\<lparr>log_type = ''error'', log_content = ''error 1''\<rparr>,
                   \<lparr>log_type = ''info'', log_content = ''started''\<rparr>]))) = [False, True]"
  using filter_all_keeps_keyword_matches [of "\<lparr>lastType = ''all''\<rparr>" "''rr''"
      "map render [\<lparr>log_type = ''error'', log_content = ''error 1''\<rparr>,
                   \<lparr>log_type = ''info'', log_content = ''started''\<rparr>]"]
  by (simp add: render_def sublist_code(3))

text \<open>
  Claim C2 as the specification states it fails: with the type \<open>all\<close> and the keyword
  \<open>y\<close>, a row whose content is \<open>x\<close> is hidden.
\<close>

theorem filter_all_hides_counterexample:
  "map is_hidden (fst (filter_logs \<lparr>lastType = ''all''\<rparr> ''y''
      [render \<lparr>log_type = ''error'', log_content = ''x''\<rparr>])) = [True]"
  by (simp add: filter_logs_def setFilterType_def setFilterKeyword_def setFilterKeyword_row_def
      render_def classList_remove_def classList_add_def is_hidden_def)

section \<open>Properties of white space and numbers\<close>

subsection \<open>Texts without white space at their ends\<close>

lemma strip_start_id:
  assumes "s \<noteq> []" and "hd s \<notin> set (map hd ws)"
  shows "strip_start ws s = s"
proof -
  have "\<not> (w \<noteq> [] \<and> prefix w s)" if "w \<in> set ws" for w
  proof
    assume "w \<noteq> [] \<and> prefix w s"
    then have "hd w = hd s" by (auto simp add: prefix_def)
    moreover have "hd w \<in> set (map hd ws)" using that by simp
    ultimately show False using assms(2) by simp
  qed
  then have "find (\<lambda>w. w \<noteq> [] \<and> prefix w s) ws = None"
    by (simp add: find_None_iff)
  then show ?thesis by (simp add: strip_start.simps [of ws s])
qed

lemma trim_id:
  assumes "s \<noteq> []"
    and "hd s \<notin> set (map hd white_space)"
    and "last s \<notin> set (map last white_space)"
  shows "trim s = s"
proof -
  have "strip_start white_space s = s" using assms(1,2) by (rule strip_start_id)
  moreover have "strip_start (map rev white_space) (rev s) = rev s"
  proof (rule strip_start_id)
    show "rev s \<noteq> []" using assms(1) by simp
    have "map hd (map rev white_space) = map last white_space"
      by (simp add: white_space_def)
    then show "hd (rev s) \<notin> set (map hd (map rev white_space))"
      using assms(1,3) by (simp add: hd_rev)
  qed
  ultimately show ?thesis by (simp add: trim_def)
qed

lemma is_digit_not_space:
  "is_digit c \<Longrightarrow> c \<notin> set (map hd white_space) \<and> c \<notin> set (map last white_space)"
  by (auto simp add: is_digit_def white_space_def)

lemma trim_none: "trim ''none'' = ''none''"
  by (rule trim_id) (simp_all add: white_space_def)

text \<open>White space beyond ASCII goes as well: a no-break space before and an em space after.\<close>

lemma trim_no_break_space:
  "trim ([CHR 0xC2, CHR 0xA0] @ ''5'' @ [CHR 0xE2, CHR 0x80, CHR 0x83]) = ''5''"
  by (simp add: trim_def strip_start.simps white_space_def)

subsection \<open>Rounding\<close>

text \<open>
  The exponent is the one of the binary interval that holds the value, integers below
  \<open>2 ^ 53\<close> are Number values as they stand, a value above half the least subnormal
  does not round to zero, and a finite value other than zero is at least the least
  subnormal.
\<close>

lemma round_even_of_int [simp]: "round_even (of_int k) = k"
  by (simp add: round_even_def)

lemma round_even_bounds: "\<lfloor>x\<rfloor> \<le> round_even x \<and> round_even x \<le> \<lfloor>x\<rfloor> + 1"
  by (simp add: round_even_def Let_def)

lemma round_even_eq_0_iff: "round_even x = 0 \<longleftrightarrow> \<bar>x\<bar> \<le> 1 / 2"
proof -
  have f: "of_int \<lfloor>x\<rfloor> \<le> x" "x < of_int \<lfloor>x\<rfloor> + 1" by linarith+
  consider "\<lfloor>x\<rfloor> = 0" | "\<lfloor>x\<rfloor> = - 1" | "1 \<le> \<lfloor>x\<rfloor>" | "\<lfloor>x\<rfloor> \<le> - 2" by linarith
  then show ?thesis
  proof cases
    case 1
    with f have "0 \<le> x" "x < 1" by simp_all
    with 1 show ?thesis by (auto simp add: round_even_def Let_def)
  next
    case 2
    with f have "- 1 \<le> x" "x < 0" by simp_all
    with 2 show ?thesis by (auto simp add: round_even_def Let_def)
  next
    case 3
    then have "1 \<le> x" by linarith
    moreover have "1 \<le> round_even x" using 3 round_even_bounds [of x] by linarith
    ultimately show ?thesis by simp
  next
    case 4
    then have "x < - 1" by linarith
    moreover have "round_even x \<le> - 1" using 4 round_even_bounds [of x] by linarith
    ultimately show ?thesis by simp
  qed
qed

lemma binade_from_range: "- 1022 \<le> e0 \<Longrightarrow> - 1022 \<le> binade_from e0 x \<and> binade_from e0 x \<le> e0"
proof (induction e0 x rule: binade_from.induct)
  case (1 e x)
  show ?case
  proof (cases "e \<le> - 1022 \<or> 2 powi e \<le> x")
    case True
    with 1(2) show ?thesis by (auto simp add: binade_from.simps [of e x])
  next
    case False
    with 1 have "- 1022 \<le> binade_from (e - 1) x \<and> binade_from (e - 1) x \<le> e - 1" by simp
    with False show ?thesis by (simp add: binade_from.simps [of e x])
  qed
qed

lemma binade_from_lower:
  "binade_from e0 x = - 1022 \<or> 2 powi (binade_from e0 x) \<le> x"
proof (induction e0 x rule: binade_from.induct)
  case (1 e x)
  show ?case
  proof (cases "e \<le> - 1022 \<or> 2 powi e \<le> x")
    case True
    then show ?thesis by (auto simp add: binade_from.simps [of e x])
  next
    case False
    with 1 show ?thesis by (simp add: binade_from.simps [of e x])
  qed
qed

lemma binade_range: "- 1022 \<le> binade x \<and> binade x \<le> 1023"
  unfolding binade_def using binade_from_range [of 1023 x] by simp

lemma binade_lower: "binade x = - 1022 \<or> 2 powi (binade x) \<le> x"
  unfolding binade_def by (rule binade_from_lower)

lemma round_double_int:
  assumes "\<bar>n\<bar> < 2 ^ 53"
  shows "round_double (of_int n) = Finite (of_int n)"
proof -
  let ?x = "of_int n :: rat"
  let ?e = "binade \<bar>?x\<bar>"
  have r: "- 1022 \<le> ?e" using binade_range by blast
  have "?e \<le> 52"
  proof (rule ccontr)
    assume "\<not> ?e \<le> 52"
    then have e: "53 \<le> ?e" by simp
    with binade_lower [of "\<bar>?x\<bar>"] have "2 powi ?e \<le> \<bar>?x\<bar>" by auto
    moreover have "(2::rat) powi 53 \<le> 2 powi ?e" using e by (intro power_int_increasing) simp_all
    moreover have "\<bar>?x\<bar> < 2 ^ 53" using assms
      by (metis of_int_abs of_int_less_iff of_int_numeral of_int_power)
    ultimately show False by simp
  qed
  then obtain k where k: "52 - ?e = int k" using nonneg_int_cases [of "52 - ?e"] by auto
  have ulp: "(2::rat) powi (?e - 52) = 1 / 2 ^ k"
  proof -
    have "?e - 52 = - int k" using k by simp
    then show ?thesis by (simp add: power_int_minus_divide)
  qed
  have "?x / (2 powi (?e - 52)) = of_int (n * 2 ^ k)" by (simp add: ulp)
  then have "round_even (?x / (2 powi (?e - 52))) = n * 2 ^ k"
    by (simp only: round_even_of_int)
  then have y: "of_int (round_even (?x / (2 powi (?e - 52)))) * (2::rat) powi (?e - 52) = ?x"
    by (simp add: ulp)
  have "\<bar>?x\<bar> < 2 ^ 53" using assms
    by (metis of_int_abs of_int_less_iff of_int_numeral of_int_power)
  then have "\<not> (2::rat) powi 1024 \<le> \<bar>?x\<bar>" by simp
  then show ?thesis
    unfolding round_double_def Let_def y by simp
qed

lemma round_double_truthy:
  assumes "2 powi (- 1075) < \<bar>x\<bar>"
  shows "number_truthy (round_double x)"
proof -
  let ?e = "binade \<bar>x\<bar>"
  let ?ulp = "(2::rat) powi (?e - 52)"
  have pos: "0 < ?ulp" by simp
  have "?ulp / 2 < \<bar>x\<bar>"
  proof (cases "?e = - 1022")
    case True
    then have "?ulp / 2 = 2 powi (- 1075)" by (simp add: power_int_minus_divide)
    with assms show ?thesis by simp
  next
    case False
    with binade_lower [of "\<bar>x\<bar>"] have "2 powi ?e \<le> \<bar>x\<bar>" by auto
    moreover have "?ulp \<le> 2 powi ?e" by (intro power_int_increasing) simp_all
    ultimately show ?thesis using pos by linarith
  qed
  then have "1 / 2 < \<bar>x / ?ulp\<bar>" using pos by (simp add: field_simps)
  then have "round_even (x / ?ulp) \<noteq> 0" by (simp add: round_even_eq_0_iff)
  then show ?thesis
    by (simp add: round_double_def Let_def)
qed

lemma round_double_Finite:
  assumes "round_double x = Finite q"
  shows "q = 0 \<or> 2 powi (- 1074) \<le> \<bar>q\<bar>"
proof -
  let ?e = "binade \<bar>x\<bar>"
  let ?ulp = "(2::rat) powi (?e - 52)"
  let ?k = "round_even (x / ?ulp)"
  have q: "q = of_int ?k * ?ulp"
    using assms by (simp add: round_double_def Let_def split: if_splits)
  have "- 1074 \<le> ?e - 52" using binade_range [of "\<bar>x\<bar>"] by simp
  then have u: "2 powi (- 1074) \<le> ?ulp" by (intro power_int_increasing) simp_all
  show ?thesis
  proof (cases "?k = 0")
    case True
    then show ?thesis using q by simp
  next
    case False
    then have "1 \<le> \<bar>?k\<bar>" by simp
    then have "(1::rat) \<le> \<bar>of_int ?k\<bar>" by (metis of_int_1_le_iff of_int_abs)
    then have "?ulp \<le> \<bar>of_int ?k\<bar> * ?ulp"
      using mult_right_mono [of 1 "\<bar>of_int ?k\<bar>" ?ulp] by simp
    then have "?ulp \<le> \<bar>q\<bar>" unfolding q by (simp add: abs_mult)
    with u show ?thesis by linarith
  qed
qed

lemma binade_from_eq:
  "- 1022 \<le> e \<Longrightarrow> e \<le> e0 \<Longrightarrow> 2 powi e \<le> x \<Longrightarrow> x < 2 powi (e + 1) \<Longrightarrow> binade_from e0 x = e"
proof (induction e0 x rule: binade_from.induct)
  case (1 e0 x)
  show ?case
  proof (cases "e0 = e")
    case True
    with 1(2,4) show ?thesis by (auto simp add: binade_from.simps [of e x])
  next
    case False
    with 1(3) have lt: "e + 1 \<le> e0" by simp
    then have "(2::rat) powi (e + 1) \<le> 2 powi e0" by (intro power_int_increasing) simp_all
    with 1(5) have "\<not> 2 powi e0 \<le> x" by simp
    moreover have "\<not> e0 \<le> - 1022" using lt 1(2) by simp
    moreover have "binade_from (e0 - 1) x = e" using 1 lt \<open>\<not> e0 \<le> - 1022\<close> \<open>\<not> 2 powi e0 \<le> x\<close> by simp
    ultimately show ?thesis by (simp add: binade_from.simps [of e0 x])
  qed
qed

lemma binade_eq:
  "- 1022 \<le> e \<Longrightarrow> e \<le> 1023 \<Longrightarrow> 2 powi e \<le> x \<Longrightarrow> x < 2 powi (e + 1) \<Longrightarrow> binade x = e"
  unfolding binade_def by (rule binade_from_eq)

lemma round_double_0 [simp]: "round_double 0 = Finite 0"
  using round_double_int [of 0] by simp

lemma round_double_1000 [simp]: "round_double 1000 = Finite 1000"
  using round_double_int [of 1000] by simp

lemma round_double_three_halves: "round_double (3 / 2) = Finite (3 / 2)"
proof -
  have b: "binade (3 / 2) = 0" by (rule binade_eq) simp_all
  show ?thesis
    by (simp add: round_double_def Let_def b round_even_def)
qed

subsection \<open>The decimal text of an integer\<close>

lemma digits_of_digits: "digits_of n \<noteq> [] \<and> list_all is_digit (digits_of n)"
proof (induction n rule: digits_of.induct)
  case (1 n)
  have d: "is_digit (digit_char k)" if "k < 10" for k
    unfolding digit_char_def is_digit_def using that by (intro nth_mem) simp
  show ?case
  proof (cases "n < 10")
    case True
    then show ?thesis using d [of n] by (simp add: digits_of.simps [of n])
  next
    case False
    then show ?thesis using 1 d [of "n mod 10"] by (simp add: digits_of.simps [of n])
  qed
qed

lemma digit_val_digit_char: "d < 10 \<Longrightarrow> digit_val (digit_char d) = int d"
proof -
  have "list_all (\<lambda>d. digit_val (digit_char d) = int d) [0..<10]"
    by code_simp
  then show "d < 10 \<Longrightarrow> digit_val (digit_char d) = int d"
    by (simp add: list_all_iff)
qed

lemma digits_value_snoc: "digits_value (ds @ [c]) = 10 * digits_value ds + digit_val c"
  by (simp add: digits_value_def)

lemma digits_value_digits_of: "digits_value (digits_of n) = int n"
proof (induction n rule: digits_of.induct)
  case (1 n)
  show ?case
  proof (cases "n < 10")
    case True
    then show ?thesis
      using digit_val_digit_char [of n] by (simp add: digits_of.simps [of n] digits_value_def)
  next
    case False
    have m: "n mod 10 < 10" by simp
    have "int n = 10 * int (n div 10) + int (n mod 10)" by presburger
    then show ?thesis
      using False 1 digit_val_digit_char [OF m]
      by (simp add: digits_of.simps [of n] digits_value_snoc)
  qed
qed

text \<open>A text of decimal digits, with or without a minus sign, reads as its integer.\<close>

lemma StrUnsignedDecimalLiteral_digits:
  assumes "ds \<noteq> []" and "list_all is_digit ds"
  shows "StrUnsignedDecimalLiteral ds = Literal_value (of_int (digits_value ds))"
proof -
  have h: "is_digit (hd ds)" using assms by (cases ds) simp_all
  then have "hd ds \<noteq> CHR ''I''" by (auto simp add: is_digit_def)
  then have ni: "ds \<noteq> ''Infinity''" by auto
  have t: "takeWhile is_digit ds = ds" "dropWhile is_digit ds = []"
    using assms(2) by (simp_all add: list_all_iff)
  show ?thesis
    using assms(1) ni by (simp add: StrUnsignedDecimalLiteral_def t ExponentPart_def Let_def)
qed

lemma NonDecimalIntegerLiteral_digits:
  assumes "list_all is_digit ds"
  shows "NonDecimalIntegerLiteral ds = None"
proof (cases ds)
  case Nil
  then show ?thesis by (simp add: NonDecimalIntegerLiteral_def)
next
  case (Cons c0 r)
  show ?thesis
  proof (cases r)
    case Nil
    with Cons show ?thesis by (simp add: NonDecimalIntegerLiteral_def)
  next
    case (Cons c1 r')
    with \<open>ds = c0 # r\<close> assms have "is_digit c1" by simp
    then have "c1 \<notin> set ''xXoObB''" by (auto simp add: is_digit_def)
    with Cons \<open>ds = c0 # r\<close> show ?thesis by (simp add: NonDecimalIntegerLiteral_def)
  qed
qed

lemma StringToNumber_digits:
  assumes "ds \<noteq> []" and "list_all is_digit ds"
  shows "StringToNumber ds = round_double (of_int (digits_value ds))"
    and "StringToNumber (CHR ''-'' # ds) = round_double (- of_int (digits_value ds))"
proof -
  have h: "is_digit (hd ds)" "is_digit (last ds)" using assms by (simp_all add: list_all_iff)
  have t: "trim ds = ds"
    using assms(1) h is_digit_not_space by (intro trim_id) blast+
  have s: "hd ds \<noteq> CHR ''+''" "hd ds \<noteq> CHR ''-''" using h(1) by (auto simp add: is_digit_def)
  obtain c r where cr: "ds = c # r" using assms(1) by (cases ds) auto
  have "StrDecimalLiteral ds = StrUnsignedDecimalLiteral ds"
    using s by (simp add: StrDecimalLiteral_def cr)
  then show "StringToNumber ds = round_double (of_int (digits_value ds))"
    using assms
    by (simp add: StringToNumber_def t StrNumericLiteral_def NonDecimalIntegerLiteral_digits
        StrUnsignedDecimalLiteral_digits)
  have t': "trim (CHR ''-'' # ds) = CHR ''-'' # ds"
  proof (rule trim_id)
    show "hd (CHR ''-'' # ds) \<notin> set (map hd white_space)" by (simp add: white_space_def)
    show "last (CHR ''-'' # ds) \<notin> set (map last white_space)"
      using assms(1) h(2) is_digit_not_space by simp
  qed simp
  have "NonDecimalIntegerLiteral (CHR ''-'' # ds) = None"
    by (simp add: NonDecimalIntegerLiteral_def split: list.splits)
  then show "StringToNumber (CHR ''-'' # ds) = round_double (- of_int (digits_value ds))"
    using assms
    by (simp add: StringToNumber_def t' StrNumericLiteral_def StrDecimalLiteral_def
        StrUnsignedDecimalLiteral_digits)
qed

lemma StringToNumber_NumberToString:
  assumes "\<bar>n\<bar> < 2 ^ 53"
  shows "StringToNumber (NumberToString (Fin n)) = Finite (of_int n)"
proof (cases "n < 0")
  case False
  then have "StringToNumber (NumberToString (Fin n)) = round_double (of_int (int (nat n)))"
    using StringToNumber_digits(1) [of "digits_of (nat n)"] digits_of_digits [of "nat n"]
    by (simp add: digits_value_digits_of)
  then show ?thesis using False assms by (simp add: round_double_int)
next
  case True
  then have "StringToNumber (NumberToString (Fin n)) = round_double (- of_int (int (nat (- n))))"
    using StringToNumber_digits(2) [of "digits_of (nat (- n))"] digits_of_digits [of "nat (- n)"]
    by (simp add: digits_value_digits_of)
  also have "\<dots> = round_double (of_int n)" using True by simp
  finally show ?thesis using assms by (simp add: round_double_int)
qed

text \<open>The product with 1000 is truthy exactly when the number is.\<close>

lemma StringToNumber_Finite:
  assumes "StringToNumber v = Finite q"
  shows "q = 0 \<or> 2 powi (- 1074) \<le> \<bar>q\<bar>"
  using assms round_double_Finite
  by (auto simp add: StringToNumber_def Let_def split: if_splits literal.splits)

lemma truthy_times_1000:
  "number_truthy (js_times (JStr v) (JNum (Fin 1000))) = number_truthy (StringToNumber v)"
proof (cases "StringToNumber v")
  case NotANumber
  then show ?thesis by (simp add: js_times_def)
next
  case (Infinity neg)
  then show ?thesis by (simp add: js_times_def)
next
  case (Finite q)
  show ?thesis
  proof (cases "q = 0")
    case True
    with Finite show ?thesis by (simp add: js_times_def)
  next
    case False
    with Finite StringToNumber_Finite have "2 powi (- 1074) \<le> \<bar>q\<bar>" by blast
    moreover have "(2::rat) powi (- 1075) < 2 powi (- 1074)"
      by (intro power_int_strict_increasing) simp_all
    moreover have "\<bar>q\<bar> \<le> \<bar>q * 1000\<bar>" by (simp add: abs_mult)
    ultimately have "2 powi (- 1075) < \<bar>q * 1000\<bar>" by linarith
    then have "number_truthy (round_double (q * 1000))" by (rule round_double_truthy)
    with Finite False show ?thesis by (simp add: js_times_def)
  qed
qed

lemma StringToNumber_one_and_a_half: "StringToNumber ''1.5'' = Finite (3 / 2)"
proof -
  have t: "trim ''1.5'' = ''1.5''" by (rule trim_id) (simp_all add: white_space_def)
  have "StrNumericLiteral ''1.5'' = Literal_value (3 / 2)"
    by (simp add: StrNumericLiteral_def NonDecimalIntegerLiteral_def StrDecimalLiteral_def
        StrUnsignedDecimalLiteral_def ExponentPart_def is_digit_def digits_value_def
        digit_val_def Let_def)
  then show ?thesis
    by (simp add: StringToNumber_def t round_double_three_halves)
qed

section \<open>Properties of the fetcher\<close>

subsection \<open>Settings, requests and rendering\<close>

text \<open>
  The request of range mode: whatever the settings, the argument of \<open>fetch\<close> is the
  text \<open>?to_date=\<close> followed by \<open>toDate\<close>, because the concatenation that is tested is
  never the empty string.
\<close>

lemma getLogsFromToDate_url_eq:
  "getLogsFromToDate_url pg this = ''?to_date='' @ ToString (toDate this)"
  by (simp add: getLogsFromToDate_url_def)

lemma getSettings_rejects:
  "fst (getSettings pg this) \<longleftrightarrow>
     instance_textContent pg \<noteq> [] \<and> trim (instance_textContent pg) \<noteq> ''none''"
  by (simp add: getSettings_def Let_def)

lemma getSettings_toDate:
  "fst (getSettings pg this) \<Longrightarrow>
     toDate (snd (getSettings pg this)) =
       (if truthy (JNum (toDateInp_valueAsNumber pg)) then JNum (toDateInp_valueAsNumber pg)
        else JBool False)"
  by (simp add: getSettings_def Let_def split: if_splits)

lemma getSettings_isLiveUpdate:
  "fst (getSettings pg this) \<Longrightarrow>
     isLiveUpdate (snd (getSettings pg this)) = liveUpdateInp_checked pg"
  by (simp add: getSettings_def Let_def split: if_splits)

lemma getSettings_updateDelay:
  "fst (getSettings pg this) \<Longrightarrow>
     updateDelay (snd (getSettings pg this)) =
       (if number_truthy (js_times (JStr (updateDelayInp_value pg)) (JNum (Fin 1000)))
        then JStr (updateDelayInp_value pg) else JNum (Fin 2000))"
  by (simp add: getSettings_def Let_def split: if_splits)

lemma showLogs_effects:
  "snd (showLogs r s) =
     SetTimeout GoBottomList (JNum (Fin 100))
     # (if isLiveUpdate (fst s) \<and> \<not> truthy (toDate (fst s))
        then [SetTimeout GetLogsSinceLastUpdate (updateDelay (fst s))] else [])"
  by (simp add: showLogs_def Let_def)

lemma showLogs_state:
  "fst (fst (showLogs r s)) = (fst s)\<lparr>lastUpdate := last_update r\<rparr>"
  "snd (fst (showLogs r s)) = snd s @ map render (logs r)"
  by (simp_all add: showLogs_def Let_def)

text \<open>
  A response with status 200 whose body has no \<open>logs\<close>: the cursor takes the reported
  value, and the TypeError ends the cycle.
\<close>

lemma on_response_without_logs:
  "status resp = 200 \<Longrightarrow> json resp = Some (Without_logs n) \<Longrightarrow>
     on_response resp s = (((fst s)\<lparr>lastUpdate := n\<rparr>, snd s), [Uncaught TypeError])"
  by (simp add: on_response_def)

subsection \<open>The request of range mode\<close>

text \<open>
  Claim C1. The claim asks for a request to the address of the page, the instance name
  and \<open>?from_date=\<close>, for every settings state that passes validation. The code at a
  form that passes validation (instance \<open>bunkerweb\<close>, a from date, no to date): the
  settings are accepted and \<open>submit\<close> sends one request, to \<open>?to_date=false\<close>, which
  holds neither the instance name nor \<open>from_date\<close>.
\<close>

theorem range_request_drops_instance_and_from_date:
  "submit \<lparr>location_href = ''http://ui/logs'', Date_now = 1700000000000,
       instance_textContent = ''bunkerweb'', fromDateInp_valueAsNumber = Fin 1699000000000,
       toDateInp_valueAsNumber = NaN, updateDelayInp_value = ''2'',
       liveUpdateInp_checked = False\<rparr>
     (FetchLogs_new \<lparr>location_href = ''http://ui/logs'', Date_now = 1700000000000,
       instance_textContent = ''bunkerweb'', fromDateInp_valueAsNumber = Fin 1699000000000,
       toDateInp_valueAsNumber = NaN, updateDelayInp_value = ''2'',
       liveUpdateInp_checked = False\<rparr>, [])
   = ((\<lparr>instanceName = ''bunkerweb'', fromDate = JStr [], toDate = JBool False,
        formDate = Some (JNum (Fin 1699000000000)), isLiveUpdate = False,
        updateDelay = JStr ''2'', lastUpdate = 1699913600\<rparr>, []),
      [Fetch ''?to_date=false''])"
proof -
  have t: "trim ''bunkerweb'' = ''bunkerweb''"
    by (rule trim_id) (simp_all add: white_space_def)
  have "StringToNumber ''2'' = Finite 2"
    using StringToNumber_digits(1) [of "''2''"] round_double_int [of 2]
    by (simp add: is_digit_def digits_value_def digit_val_def)
  then have d: "number_truthy (js_times (JStr ''2'') (JNum (Fin 1000)))"
    by (simp add: truthy_times_1000)
  show ?thesis
    by (simp add: submit_def read_and_fetch_def getSettings_def FetchLogs_new_def Let_def
        getLogsFromToDate_url_eq t d day_ago_def)
qed

subsection \<open>Validation\<close>

text \<open>
  Claim C5. When the instance selector shows the empty string or \<open>none\<close>, \<open>getSettings\<close>
  answers \<open>false\<close> and \<open>submit\<close> sends no request: the click handler does nothing but,
  in live mode with no to date, defer the reading of the settings by one delay, and the
  deferred reading, run on such a page, does nothing either.
\<close>

theorem submit_without_instance_sends_nothing:
  assumes "instance_textContent pg = [] \<or> instance_textContent pg = ''none''"
  shows "fst (getSettings pg this) = False
    \<and> fetches (snd (submit pg s)) = []
    \<and> snd (submit pg s) =
          (if isLiveUpdate (fst s) \<and> \<not> truthy (toDate (fst s))
           then [SetTimeout DeferredSubmit (updateDelay (fst s))] else [])
    \<and> snd (run_timer pg DeferredSubmit s') = []"
proof -
  have a: "fst (getSettings pg t) = False" for t
    using assms by (auto simp add: getSettings_rejects trim_none)
  then have b: "snd (read_and_fetch pg t) = []" for t
    by (simp add: read_and_fetch_def Let_def)
  have c: "snd (submit pg s) =
          (if isLiveUpdate (fst s) \<and> \<not> truthy (toDate (fst s))
           then [SetTimeout DeferredSubmit (updateDelay (fst s))] else [])"
    by (simp add: submit_def Let_def b)
  then have "fetches (snd (submit pg s)) = []" by simp
  moreover have "snd (run_timer pg DeferredSubmit s') = []" by (simp add: b)
  ultimately show ?thesis using a c by blast
qed

text \<open>The theorem on a page that shows \<open>none\<close>.\<close>

theorem submit_without_instance_sends_nothing_witness:
  "snd (submit \<lparr>location_href = ''http://ui/logs'', Date_now = 1700000000000,
       instance_textContent = ''none'', fromDateInp_valueAsNumber = NaN,
       toDateInp_valueAsNumber = NaN, updateDelayInp_value = ''2'',
       liveUpdateInp_checked = True\<rparr>
     (\<lparr>instanceName = ''bunkerweb'', fromDate = JStr [], toDate = JNum (Fin 1700000000000),
        formDate = None, isLiveUpdate = True, updateDelay = JStr ''2'',
        lastUpdate = 1699913600\<rparr>, [])) = []"
  using submit_without_instance_sends_nothing [where pg =
     "\<lparr>location_href = ''http://ui/logs'', Date_now = 1700000000000,
       instance_textContent = ''none'', fromDateInp_valueAsNumber = NaN,
       toDateInp_valueAsNumber = NaN, updateDelayInp_value = ''2'',
       liveUpdateInp_checked = True\<rparr>" and s =
     "(\<lparr>instanceName = ''bunkerweb'', fromDate = JStr [], toDate = JNum (Fin 1700000000000),
        formDate = None, isLiveUpdate = True, updateDelay = JStr ''2'',
        lastUpdate = 1699913600\<rparr>, [])"]
  by simp

subsection \<open>Re-arming\<close>

text \<open>
  Claim C4. With a to date set, a response schedules no request and sends none,
  whatever its status, and leaves the to date as it is; after a successful render the
  only timer is the one that scrolls the list. \<open>showLogs\<close> schedules a request exactly
  when \<open>isLiveUpdate\<close> holds and no to date is set, and \<open>getSettings\<close> sets a to date
  exactly when the to-date input reads as a number other than zero.
\<close>

theorem closed_range_is_one_shot:
  "(truthy (toDate (fst s)) \<longrightarrow>
      fetch_timers (snd (on_response resp s)) = []
      \<and> fetches (snd (on_response resp s)) = []
      \<and> toDate (fst (fst (on_response resp s))) = toDate (fst s))
   \<and> (truthy (toDate (fst s)) \<longrightarrow> status resp = 200 \<longrightarrow> json resp = Some (With_logs r) \<longrightarrow>
        snd (on_response resp s) = [SetTimeout GoBottomList (JNum (Fin 100))])
   \<and> (fetch_timers (snd (showLogs r s)) \<noteq> [] \<longleftrightarrow>
        isLiveUpdate (fst s) \<and> \<not> truthy (toDate (fst s)))
   \<and> (fst (getSettings pg this) \<longrightarrow>
        truthy (toDate (snd (getSettings pg this))) = truthy (JNum (toDateInp_valueAsNumber pg)))"
proof -
  have one: "fetch_timers (snd (on_response resp s)) = []
      \<and> fetches (snd (on_response resp s)) = []
      \<and> toDate (fst (fst (on_response resp s))) = toDate (fst s)" if "truthy (toDate (fst s))"
    using that
    by (simp add: on_response_def showLogs_effects showLogs_state fetch_timers_def
        split: option.splits body.splits)
  have two: "snd (on_response resp s) = [SetTimeout GoBottomList (JNum (Fin 100))]"
    if "truthy (toDate (fst s))" "status resp = 200" "json resp = Some (With_logs r)"
    using that by (simp add: on_response_def showLogs_effects)
  have three: "fetch_timers (snd (showLogs r s)) \<noteq> [] \<longleftrightarrow>
        isLiveUpdate (fst s) \<and> \<not> truthy (toDate (fst s))"
    by (simp add: showLogs_effects fetch_timers_def)
  have four: "truthy (toDate (snd (getSettings pg this))) = truthy (JNum (toDateInp_valueAsNumber pg))"
    if "fst (getSettings pg this)"
    using that by (simp add: getSettings_toDate)
  show ?thesis using one two three four by blast
qed

text \<open>The theorem on a response with one record, in live mode with a to date.\<close>

theorem closed_range_is_one_shot_witness:
  "snd (on_response \<lparr>status = 200, json = Some (With_logs \<lparr>last_update = 1000,
        logs = [\<lparr>log_type = ''error'', log_content = ''x''\<rparr>]\<rparr>)\<rparr>
     (\<lparr>instanceName = ''bunkerweb'', fromDate = JStr [], toDate = JNum (Fin 1700000000000),
        formDate = None, isLiveUpdate = True, updateDelay = JStr ''2'',
        lastUpdate = 900\<rparr>, [])) = [SetTimeout GoBottomList (JNum (Fin 100))]"
  using closed_range_is_one_shot [where s =
     "(\<lparr>instanceName = ''bunkerweb'', fromDate = JStr [], toDate = JNum (Fin 1700000000000),
        formDate = None, isLiveUpdate = True, updateDelay = JStr ''2'',
        lastUpdate = 900\<rparr>, [])" and resp =
     "\<lparr>status = 200, json = Some (With_logs \<lparr>last_update = 1000,
        logs = [\<lparr>log_type = ''error'', log_content = ''x''\<rparr>]\<rparr>)\<rparr>" and r =
     "\<lparr>last_update = 1000, logs = [\<lparr>log_type = ''error'', log_content = ''x''\<rparr>]\<rparr>"]
  by simp

text \<open>
  Claim C3, as amended. In live mode with no to date, \<open>showLogs\<close> schedules exactly one
  request, \<open>getLogsSinceLastUpdate\<close> after \<open>updateDelay\<close>, sends none itself and stores
  the \<open>last_update\<close> of the response; when the timer fires on that state the request
  goes to the address of the page and the instance name, followed by
  \<open>?last_update=\<close> and the stored value when that value is not zero, and by nothing
  when it is zero.
\<close>

theorem live_render_schedules_one_incremental_fetch:
  assumes "isLiveUpdate (fst s)" and "\<not> truthy (toDate (fst s))"
  shows "fetch_timers (snd (showLogs r s)) = [(GetLogsSinceLastUpdate, updateDelay (fst s))]
    \<and> fetches (snd (showLogs r s)) = []
    \<and> lastUpdate (fst (fst (showLogs r s))) = last_update r
    \<and> snd (run_timer pg GetLogsSinceLastUpdate (fst (showLogs r s))) =
        [Fetch (location_href pg @ ''/'' @ instanceName (fst s)
                @ (if last_update r \<noteq> 0
                   then ''?last_update='' @ NumberToString (Fin (last_update r)) else []))]"
  using assms
  by (simp add: showLogs_effects showLogs_state fetch_timers_def getLogsSinceLastUpdate_url_def)

text \<open>The theorem on a response whose \<open>last_update\<close> is 1000.\<close>

theorem live_render_schedules_one_incremental_fetch_witness:
  "fetch_timers (snd (showLogs \<lparr>last_update = 1000, logs = []\<rparr>
     (\<lparr>instanceName = ''bunkerweb'', fromDate = JStr [], toDate = JBool False,
        formDate = None, isLiveUpdate = True, updateDelay = JStr ''5'',
        lastUpdate = 900\<rparr>, []))) = [(GetLogsSinceLastUpdate, JStr ''5'')]
   \<and> snd (run_timer \<lparr>location_href = ''http://ui/logs'', Date_now = 1700000000000,
       instance_textContent = ''bunkerweb'', fromDateInp_valueAsNumber = NaN,
       toDateInp_valueAsNumber = NaN, updateDelayInp_value = ''5'',
       liveUpdateInp_checked = True\<rparr> GetLogsSinceLastUpdate
      (fst (showLogs \<lparr>last_update = 1000, logs = []\<rparr>
     (\<lparr>instanceName = ''bunkerweb'', fromDate = JStr [], toDate = JBool False,
        formDate = None, isLiveUpdate = True, updateDelay = JStr ''5'',
        lastUpdate = 900\<rparr>, [])))) = [Fetch ''http://ui/logs/bunkerweb?last_update=1000'']"
  using live_render_schedules_one_incremental_fetch [where s =
     "(\<lparr>instanceName = ''bunkerweb'', fromDate = JStr [], toDate = JBool False,
        formDate = None, isLiveUpdate = True, updateDelay = JStr ''5'',
        lastUpdate = 900\<rparr>, [])" and r =
     "\<lparr>last_update = 1000, logs = []\<rparr>" and pg =
     "\<lparr>location_href = ''http://ui/logs'', Date_now = 1700000000000,
       instance_textContent = ''bunkerweb'', fromDateInp_valueAsNumber = NaN,
       toDateInp_valueAsNumber = NaN, updateDelayInp_value = ''5'',
       liveUpdateInp_checked = True\<rparr>"]
  by (simp add: digits_of.simps digit_char_def)

text \<open>
  Claim C3 as the specification states it fails when the response reports
  \<open>last_update = 0\<close>: the request that follows carries no \<open>last_update\<close> parameter.
\<close>

theorem zero_cursor_counterexample:
  "isLiveUpdate \<lparr>instanceName = ''bunkerweb'', fromDate = JStr [], toDate = JBool False,
        formDate = None, isLiveUpdate = True, updateDelay = JStr ''5'', lastUpdate = 900\<rparr>
   \<and> \<not> truthy (toDate \<lparr>instanceName = ''bunkerweb'', fromDate = JStr [], toDate = JBool False,
        formDate = None, isLiveUpdate = True, updateDelay = JStr ''5'', lastUpdate = 900\<rparr>)
   \<and> snd (run_timer \<lparr>location_href = ''http://ui/logs'', Date_now = 1700000000000,
       instance_textContent = ''bunkerweb'', fromDateInp_valueAsNumber = NaN,
       toDateInp_valueAsNumber = NaN, updateDelayInp_value = ''5'',
       liveUpdateInp_checked = True\<rparr> GetLogsSinceLastUpdate
      (fst (showLogs \<lparr>last_update = 0, logs = []\<rparr>
     (\<lparr>instanceName = ''bunkerweb'', fromDate = JStr [], toDate = JBool False,
        formDate = None, isLiveUpdate = True, updateDelay = JStr ''5'',
        lastUpdate = 900\<rparr>, [])))) = [Fetch ''http://ui/logs/bunkerweb'']
   \<and> \<not> str_includes ''http://ui/logs/bunkerweb'' ''last_update''"
  by (simp add: showLogs_def getLogsSinceLastUpdate_url_def Let_def)

subsection \<open>The cursor\<close>

text \<open>
  Claim C8, as amended. After a successful cycle the cursor is the \<open>last_update\<close> that
  the server reported, so it has not gone back exactly when the server reported a value
  that is at least the cursor before.
\<close>

theorem cursor_follows_server:
  "status resp = 200 \<and> json resp = Some (With_logs r) \<longrightarrow>
      lastUpdate (fst (fst (on_response resp s))) = last_update r
      \<and> (lastUpdate (fst s) \<le> lastUpdate (fst (fst (on_response resp s)))
           \<longleftrightarrow> lastUpdate (fst s) \<le> last_update r)"
  by (simp add: on_response_def showLogs_state)

text \<open>The theorem on a response with two records whose \<open>last_update\<close> is 1000.\<close>

theorem cursor_follows_server_witness:
  "lastUpdate (fst (fst (on_response
      \<lparr>status = 200, json = Some (With_logs \<lparr>last_update = 1000,
         logs = [\<lparr>log_type = ''error'', log_content = ''x''\<rparr>,
                 \<lparr>log_type = ''info'', log_content = ''y''\<rparr>]\<rparr>)\<rparr>
      (\<lparr>instanceName = ''bunkerweb'', fromDate = JStr [], toDate = JBool False,
        formDate = None, isLiveUpdate = True, updateDelay = JStr ''5'',
        lastUpdate = 900\<rparr>, [])))) = 1000"
  using cursor_follows_server [where resp =
      "\<lparr>status = 200, json = Some (With_logs \<lparr>last_update = 1000,
         logs = [\<lparr>log_type = ''error'', log_content = ''x''\<rparr>,
                 \<lparr>log_type = ''info'', log_content = ''y''\<rparr>]\<rparr>)\<rparr>" and r =
      "\<lparr>last_update = 1000,
         logs = [\<lparr>log_type = ''error'', log_content = ''x''\<rparr>,
                 \<lparr>log_type = ''info'', log_content = ''y''\<rparr>]\<rparr>" and s =
      "(\<lparr>instanceName = ''bunkerweb'', fromDate = JStr [], toDate = JBool False,
        formDate = None, isLiveUpdate = True, updateDelay = JStr ''5'',
        lastUpdate = 900\<rparr>, [])"]
  by simp

text \<open>
  Claim C8 as the specification states it fails: a response that reports 500 moves a
  cursor of 1000 back.
\<close>

theorem cursor_goes_back_counterexample:
  "lastUpdate (fst (fst (on_response
      \<lparr>status = 200, json = Some (With_logs \<lparr>last_update = 500, logs = []\<rparr>)\<rparr>
      (\<lparr>instanceName = ''bunkerweb'', fromDate = JStr [], toDate = JBool False,
        formDate = None, isLiveUpdate = True, updateDelay = JStr ''5'',
        lastUpdate = 1000\<rparr>, []))))
   < lastUpdate \<lparr>instanceName = ''bunkerweb'', fromDate = JStr [], toDate = JBool False,
        formDate = None, isLiveUpdate = True, updateDelay = JStr ''5'',
        lastUpdate = 1000\<rparr>"
  by (simp add: on_response_def showLogs_def Let_def)

subsection \<open>The delay\<close>

text \<open>
  Claim C10. When the settings pass validation, \<open>updateDelay\<close> is the text of the delay
  input as it stands when that text times 1000 is truthy, which is when the text reads
  as a number other than zero (an infinity included), and it is 2000 when the text
  reads as zero or as no number. What is stored is never the product: the delay reads
  as the number that the text reads as, so the decimal text of an integer \<open>m\<close> other
  than zero (below \<open>2 ^ 53\<close> in size) gives a delay that reads as \<open>m\<close>, not as \<open>m\<close>
  times 1000. In live mode with no to date, the timer that \<open>showLogs\<close> sets for the next
  request has this \<open>updateDelay\<close> as its delay.
\<close>

theorem updateDelay_is_raw_input:
  "(fst (getSettings pg this) \<longrightarrow>
      updateDelay (snd (getSettings pg this)) =
        (if number_truthy (js_times (JStr (updateDelayInp_value pg)) (JNum (Fin 1000)))
         then JStr (updateDelayInp_value pg) else JNum (Fin 2000))
      \<and> updateDelay (snd (getSettings pg this)) =
        (case StringToNumber (updateDelayInp_value pg) of
           NotANumber \<Rightarrow> JNum (Fin 2000)
         | Infinity neg \<Rightarrow> JStr (updateDelayInp_value pg)
         | Finite q \<Rightarrow> if q = 0 then JNum (Fin 2000) else JStr (updateDelayInp_value pg))
      \<and> ToNumber (updateDelay (snd (getSettings pg this))) =
        (case StringToNumber (updateDelayInp_value pg) of
           NotANumber \<Rightarrow> Finite 2000
         | Infinity neg \<Rightarrow> Infinity neg
         | Finite q \<Rightarrow> if q = 0 then Finite 2000 else Finite q))
   \<and> (fst (getSettings pg this) \<and> updateDelayInp_value pg = NumberToString (Fin m)
        \<and> m \<noteq> 0 \<and> \<bar>m\<bar> < 2 ^ 53 \<longrightarrow>
      updateDelay (snd (getSettings pg this)) = JStr (NumberToString (Fin m))
      \<and> ToNumber (updateDelay (snd (getSettings pg this))) = Finite (of_int m))
   \<and> (fst (getSettings pg this) \<and> liveUpdateInp_checked pg
        \<and> \<not> truthy (JNum (toDateInp_valueAsNumber pg)) \<longrightarrow>
      fetch_timers (snd (showLogs r (snd (getSettings pg this), rows))) =
        [(GetLogsSinceLastUpdate, updateDelay (snd (getSettings pg this)))])"
proof -
  let ?v = "updateDelayInp_value pg"
  let ?d = "updateDelay (snd (getSettings pg this))"
  have two: "round_double 2000 = Finite 2000"
    using round_double_int [of 2000] by simp
  have a0: "?d = (if number_truthy (js_times (JStr ?v) (JNum (Fin 1000)))
         then JStr ?v else JNum (Fin 2000))"
    if "fst (getSettings pg this)"
    using that by (rule getSettings_updateDelay)
  have a: "?d = (case StringToNumber ?v of
           NotANumber \<Rightarrow> JNum (Fin 2000)
         | Infinity neg \<Rightarrow> JStr ?v
         | Finite q \<Rightarrow> if q = 0 then JNum (Fin 2000) else JStr ?v)"
    if "fst (getSettings pg this)"
    unfolding a0 [OF that] truthy_times_1000 by (simp split: number.splits)
  have b: "ToNumber ?d = (case StringToNumber ?v of
           NotANumber \<Rightarrow> Finite 2000
         | Infinity neg \<Rightarrow> Infinity neg
         | Finite q \<Rightarrow> if q = 0 then Finite 2000 else Finite q)"
    if "fst (getSettings pg this)"
    unfolding a [OF that] by (simp add: two split: number.splits)
  have c: "fetch_timers (snd (showLogs r (snd (getSettings pg this), rows))) =
        [(GetLogsSinceLastUpdate, ?d)]"
    if "fst (getSettings pg this)" "liveUpdateInp_checked pg"
       "\<not> truthy (JNum (toDateInp_valueAsNumber pg))"
    using that
    by (simp add: showLogs_effects fetch_timers_def getSettings_toDate getSettings_isLiveUpdate)
  have d: "?d = JStr (NumberToString (Fin m)) \<and> ToNumber ?d = Finite (of_int m)"
    if "fst (getSettings pg this)" "?v = NumberToString (Fin m)" "m \<noteq> 0" "\<bar>m\<bar> < 2 ^ 53"
    using a [OF that(1)] b [OF that(1)] that(3)
    unfolding that(2) StringToNumber_NumberToString [OF that(4)] by simp
  show ?thesis using a0 a b c d by blast
qed

text \<open>The theorem on a form whose delay input holds \<open>1.5\<close>.\<close>

theorem updateDelay_is_raw_input_witness:
  "updateDelay (snd (getSettings \<lparr>location_href = ''http://ui/logs'', Date_now = 1700000000000,
       instance_textContent = ''bunkerweb'', fromDateInp_valueAsNumber = NaN,
       toDateInp_valueAsNumber = NaN, updateDelayInp_value = ''1.5'',
       liveUpdateInp_checked = True\<rparr> (FetchLogs_new \<lparr>location_href = ''http://ui/logs'',
       Date_now = 1700000000000,
       instance_textContent = ''bunkerweb'', fromDateInp_valueAsNumber = NaN,
       toDateInp_valueAsNumber = NaN, updateDelayInp_value = ''1.5'',
       liveUpdateInp_checked = True\<rparr>))) = JStr ''1.5''
   \<and> ToNumber (updateDelay (snd (getSettings \<lparr>location_href = ''http://ui/logs'',
       Date_now = 1700000000000,
       instance_textContent = ''bunkerweb'', fromDateInp_valueAsNumber = NaN,
       toDateInp_valueAsNumber = NaN, updateDelayInp_value = ''1.5'',
       liveUpdateInp_checked = True\<rparr> (FetchLogs_new \<lparr>location_href = ''http://ui/logs'',
       Date_now = 1700000000000,
       instance_textContent = ''bunkerweb'', fromDateInp_valueAsNumber = NaN,
       toDateInp_valueAsNumber = NaN, updateDelayInp_value = ''1.5'',
       liveUpdateInp_checked = True\<rparr>)))) = Finite (3 / 2)"
proof -
  let ?pg = "\<lparr>location_href = ''http://ui/logs'', Date_now = 1700000000000,
       instance_textContent = ''bunkerweb'', fromDateInp_valueAsNumber = NaN,
       toDateInp_valueAsNumber = NaN, updateDelayInp_value = ''1.5'',
       liveUpdateInp_checked = True\<rparr>"
  have t: "trim ''bunkerweb'' = ''bunkerweb''"
    by (rule trim_id) (simp_all add: white_space_def)
  have ok: "fst (getSettings ?pg (FetchLogs_new ?pg))"
    by (simp add: getSettings_rejects t)
  show ?thesis
    using updateDelay_is_raw_input [of "?pg" "FetchLogs_new ?pg" 0
        "\<lparr>last_update = 0, logs = []\<rparr>" "[]",
        THEN conjunct1, rule_format, OF ok, THEN conjunct2]
    by (simp add: StringToNumber_one_and_a_half)
qed

end
